theory Spec2Isabelle
  imports Complex_Main "HOL-Library.Word"
begin

section \<open>JavaScript strings\<close>

text \<open>
  A JavaScript string is a sequence of UTF-16 code units. ASCII literals of the source are
  written with \<open>ascii\<close>; the Chinese literals of the source are written as their code
  units, with the code points named in the comment beside them.
\<close>

type_synonym code_unit = "16 word"
type_synonym jstring = "code_unit list"

definition ascii :: "string \<Rightarrow> jstring" where
  "ascii s = map (\<lambda>c. of_nat (of_char c)) s"

text \<open>
  \<open>String.prototype.trim\<close> removes the code units of the productions WhiteSpace and
  LineTerminator of ECMA-262 from both ends: TAB, LF, VT, FF, CR, SP, NBSP, the
  space separators U+1680, U+2000 to U+200A, U+202F, U+205F, U+3000, the line and
  paragraph separators U+2028 and U+2029, and U+FEFF.
\<close>

definition whiteSpaceUnits :: "code_unit list" where
  "whiteSpaceUnits = [0x09, 0x0A, 0x0B, 0x0C, 0x0D, 0x20, 0xA0, 0x1680,
     0x2000, 0x2001, 0x2002, 0x2003, 0x2004, 0x2005, 0x2006, 0x2007, 0x2008, 0x2009, 0x200A,
     0x2028, 0x2029, 0x202F, 0x205F, 0x3000, 0xFEFF]"

definition isWhiteSpace :: "code_unit \<Rightarrow> bool" where
  "isWhiteSpace c = (c \<in> set whiteSpaceUnits)"

definition trimStart :: "jstring \<Rightarrow> jstring" where
  "trimStart s = dropWhile isWhiteSpace s"

definition trimEnd :: "jstring \<Rightarrow> jstring" where
  "trimEnd s = rev (dropWhile isWhiteSpace (rev s))"

definition trim :: "jstring \<Rightarrow> jstring" where
  "trim s = trimEnd (trimStart s)"

definition isDigit :: "code_unit \<Rightarrow> bool" where
  "isDigit c = (0x30 \<le> c \<and> c \<le> 0x39)"

definition digitUnit :: "nat \<Rightarrow> code_unit" where
  "digitUnit d = of_nat (48 + d)"

text \<open>The decimal text of a non-negative integer, as a template literal prints a counter.\<close>

fun showNat :: "nat \<Rightarrow> jstring" where
  "showNat n = (if n < 10 then [digitUnit n] else showNat (n div 10) @ [digitUnit (n mod 10)])"

declare showNat.simps [simp del]

section \<open>The data model (types of the repository)\<close>

text \<open>
  The source names its fields in Chinese; the theory uses these names:
  \<^item> deviceCode: U+8BBE U+5907 U+7F16 U+53F7 (the device identifier column);
  \<^item> workLocation: U+5DE5 U+4F5C U+90E8 U+4F4D;
  \<^item> componentName: U+96F6 U+90E8 U+4EF6 U+540D U+79F0;
  \<^item> spec: U+578B U+53F7 U+89C4 U+683C;
  \<^item> quantity: U+6570 U+91CF U+53CA U+7C73 U+6570;
  \<^item> power: U+7535 U+673A U+529F U+7387;
  \<^item> remark: U+5907 U+6CE8;
  \<^item> components: U+96F6 U+90E8 U+4EF6 U+5217 U+8868 (the component list of a device).

  A \<open>RawCSVRow\<close> is an object keyed by the CSV header. The interface declares the seven
  columns as strings, but \<open>validateData\<close> tests whether a column is present and
  \<open>processInheritance\<close> reads every column defensively, so a column is optional here:
  \<open>None\<close> is a key that the object does not have. Columns other than the seven are
  not modelled: they are read by the content test of the row filter alone, which has no
  effect on the result (\<open>processInheritance_header_filter\<close> below).
\<close>

record RawCSVRow =
  row_deviceCode :: "jstring option"
  row_workLocation :: "jstring option"
  row_componentName :: "jstring option"
  row_spec :: "jstring option"
  row_quantity :: "jstring option"
  row_power :: "jstring option"
  row_remark :: "jstring option"

record Component =
  c_id :: jstring
  c_name :: jstring
  c_spec :: jstring
  c_quantity :: jstring
  c_power :: jstring
  c_remark :: jstring

record Device =
  d_id :: jstring
  d_deviceCode :: jstring
  d_workLocation :: jstring
  d_components :: "Component list"

definition col_deviceCode :: jstring where
  "col_deviceCode = [0x8BBE, 0x5907, 0x7F16, 0x53F7]"

definition col_workLocation :: jstring where
  "col_workLocation = [0x5DE5, 0x4F5C, 0x90E8, 0x4F4D]"

definition col_componentName :: jstring where
  "col_componentName = [0x96F6, 0x90E8, 0x4EF6, 0x540D, 0x79F0]"

definition col_spec :: jstring where
  "col_spec = [0x578B, 0x53F7, 0x89C4, 0x683C]"

definition col_quantity :: jstring where
  "col_quantity = [0x6570, 0x91CF, 0x53CA, 0x7C73, 0x6570]"

definition col_power :: jstring where
  "col_power = [0x7535, 0x673A, 0x529F, 0x7387]"

definition col_remark :: jstring where
  "col_remark = [0x5907, 0x6CE8]"

section \<open>csvParser.ts: processInheritance\<close>

text \<open>
  \<open>v && v.trim() !== ''\<close>: the cell is present, not the empty string, and not blank
  after trimming.
\<close>

definition nonBlank :: "jstring option \<Rightarrow> bool" where
  "nonBlank v = (case v of None \<Rightarrow> False | Some s \<Rightarrow> s \<noteq> [] \<and> trim s \<noteq> [])"

text \<open>\<open>v?.trim() || ''\<close>: the trimmed cell, the empty string for a missing one.\<close>

definition trimOrEmpty :: "jstring option \<Rightarrow> jstring" where
  "trimOrEmpty v = (case v of None \<Rightarrow> [] | Some s \<Rightarrow> trim s)"

text \<open>\<open>Object.values(row)\<close>: the values of the columns the row has.\<close>

definition objectValues :: "RawCSVRow \<Rightarrow> jstring list" where
  "objectValues row = List.map_filter (\<lambda>v. v)
     [row_deviceCode row, row_workLocation row, row_componentName row, row_spec row,
      row_quantity row, row_power row, row_remark row]"

definition hasContent :: "RawCSVRow \<Rightarrow> bool" where
  "hasContent row = list_ex (\<lambda>v. v \<noteq> [] \<and> trim v \<noteq> []) (objectValues row)"

definition isHeaderRow :: "RawCSVRow \<Rightarrow> bool" where
  "isHeaderRow row = (row_deviceCode row = Some col_deviceCode \<or>
                      row_componentName row = Some col_componentName)"

definition validRows :: "RawCSVRow list \<Rightarrow> RawCSVRow list" where
  "validRows rows = filter (\<lambda>row. hasContent row \<and> \<not> isHeaderRow row) rows"

text \<open>The variables of the loop: the output array, the open device and the two counters.\<close>

record pstate =
  devices :: "Device list"
  currentDevice :: "Device option"
  deviceCounter :: nat
  componentCounter :: nat

definition initialState :: pstate where
  "initialState = \<lparr>devices = [], currentDevice = None, deviceCounter = 1, componentCounter = 1\<rparr>"

text \<open>
  The first \<open>if\<close> of the loop body: a row with a device identifier closes the open
  device and opens a new one. In this branch the identifier is present, so
  \<open>trimOrEmpty\<close> gives \<open>row.deviceCode.trim()\<close>.
\<close>

definition openDevice :: "pstate \<Rightarrow> RawCSVRow \<Rightarrow> pstate" where
  "openDevice st row =
     (if nonBlank (row_deviceCode row) then
        st\<lparr>devices := (case currentDevice st of
                          None \<Rightarrow> devices st
                        | Some d \<Rightarrow> devices st @ [d]),
            currentDevice := Some \<lparr>d_id = ascii ''device-'' @ showNat (deviceCounter st),
                                    d_deviceCode = trimOrEmpty (row_deviceCode row),
                                    d_workLocation = trimOrEmpty (row_workLocation row),
                                    d_components = []\<rparr>,
            deviceCounter := deviceCounter st + 1\<rparr>
      else st)"

text \<open>
  The second \<open>if\<close>: a row with a component name adds a component to the open device;
  without an open device nothing happens and the counter stays.
\<close>

definition addComponent :: "pstate \<Rightarrow> RawCSVRow \<Rightarrow> pstate" where
  "addComponent st row =
     (if nonBlank (row_componentName row) then
        (case currentDevice st of
           None \<Rightarrow> st
         | Some d \<Rightarrow>
             st\<lparr>currentDevice := Some (d\<lparr>d_components := d_components d @
                    [\<lparr>c_id = ascii ''component-'' @ showNat (componentCounter st),
                      c_name = trimOrEmpty (row_componentName row),
                      c_spec = trimOrEmpty (row_spec row),
                      c_quantity = trimOrEmpty (row_quantity row),
                      c_power = trimOrEmpty (row_power row),
                      c_remark = trimOrEmpty (row_remark row)\<rparr>]\<rparr>),
                componentCounter := componentCounter st + 1\<rparr>)
      else st)"

definition processRow :: "pstate \<Rightarrow> RawCSVRow \<Rightarrow> pstate" where
  "processRow st row = addComponent (openDevice st row) row"

text \<open>After the loop the open device, if any, is appended.\<close>

definition flush :: "pstate \<Rightarrow> Device list" where
  "flush st = (case currentDevice st of None \<Rightarrow> devices st | Some d \<Rightarrow> devices st @ [d])"

definition processInheritance :: "RawCSVRow list \<Rightarrow> Device list" where
  "processInheritance rows = flush (foldl processRow initialState (validRows rows))"

definition isDeviceRow :: "RawCSVRow \<Rightarrow> bool" where
  "isDeviceRow row = nonBlank (row_deviceCode row)"

definition isComponentRow :: "RawCSVRow \<Rightarrow> bool" where
  "isComponentRow row = nonBlank (row_componentName row)"

definition totalComponents :: "Device list \<Rightarrow> nat" where
  "totalComponents ds = sum_list (map (\<lambda>d. length (d_components d)) ds)"

text \<open>A row with all seven columns present, from seven ASCII cells in column order.\<close>

definition mkRow :: "string \<Rightarrow> string \<Rightarrow> string \<Rightarrow> string \<Rightarrow> string \<Rightarrow> string \<Rightarrow> string \<Rightarrow> RawCSVRow" where
  "mkRow a b c d e f g =
     \<lparr>row_deviceCode = Some (ascii a), row_workLocation = Some (ascii b),
      row_componentName = Some (ascii c), row_spec = Some (ascii d),
      row_quantity = Some (ascii e), row_power = Some (ascii f), row_remark = Some (ascii g)\<rparr>"

text \<open>
  Sample rows: a component row before any device row, a row with a white-space device
  identifier and a work location, a device row with a component, an all-empty row and a
  continuation row.
\<close>

definition w_rows :: "RawCSVRow list" where
  "w_rows = [mkRow '''' '''' ''PartA'' '''' '''' '''' '''',
             mkRow '' '' ''Loc'' '''' '''' '''' '''' '''',
             mkRow ''HC-001'' ''Loc-A'' ''PartX'' '''' '''' '''' '''',
             mkRow '''' '''' '''' '''' '''' '''' '''',
             mkRow '''' '''' ''PartY'' '''' '''' '''' '''']"

section \<open>Well-formedness of the reconstructed devices\<close>

text \<open>A string that \<open>trim\<close> leaves unchanged has no white space at either end.\<close>

definition trimmed :: "jstring \<Rightarrow> bool" where
  "trimmed s = (trim s = s)"

definition componentOk :: "Component \<Rightarrow> bool" where
  "componentOk c = (c_name c \<noteq> [] \<and> trimmed (c_id c) \<and> trimmed (c_name c) \<and>
     trimmed (c_spec c) \<and> trimmed (c_quantity c) \<and> trimmed (c_power c) \<and> trimmed (c_remark c))"

definition deviceOk :: "Device \<Rightarrow> bool" where
  "deviceOk d = (d_deviceCode d \<noteq> [] \<and> trimmed (d_id d) \<and> trimmed (d_deviceCode d) \<and>
     trimmed (d_workLocation d) \<and> list_all componentOk (d_components d))"

text \<open>The loop invariant: the closed devices and the open device are well formed.\<close>

definition stateOk :: "pstate \<Rightarrow> bool" where
  "stateOk st = (list_all deviceOk (devices st) \<and>
     (case currentDevice st of None \<Rightarrow> True | Some d \<Rightarrow> deviceOk d))"

section \<open>JavaScript numbers and parseFloat\<close>

text \<open>
  A JavaScript number is NaN, an infinity or a finite value. The finite values are kept
  as exact rationals: the value a decimal text denotes, and exact sums. Rounding to
  binary64, overflow to an infinity and the sign of zero are not modelled.
\<close>

datatype number = NaN | PosInf | NegInf | Fin rat

fun number_add :: "number \<Rightarrow> number \<Rightarrow> number" where
  "number_add NaN y = NaN"
| "number_add x NaN = NaN"
| "number_add PosInf NegInf = NaN"
| "number_add NegInf PosInf = NaN"
| "number_add PosInf y = PosInf"
| "number_add NegInf y = NegInf"
| "number_add x PosInf = PosInf"
| "number_add x NegInf = NegInf"
| "number_add (Fin a) (Fin b) = Fin (a + b)"

fun number_neg :: "number \<Rightarrow> number" where
  "number_neg NaN = NaN"
| "number_neg PosInf = NegInf"
| "number_neg NegInf = PosInf"
| "number_neg (Fin a) = Fin (- a)"

definition digitsValue :: "jstring \<Rightarrow> nat" where
  "digitsValue ds = foldl (\<lambda>a c. 10 * a + (unat c - 48)) 0 ds"

definition scale10 :: "rat \<Rightarrow> int \<Rightarrow> rat" where
  "scale10 m e = (if 0 \<le> e then m * 10 ^ nat e else m / 10 ^ nat (- e))"

text \<open>
  ExponentPart: \<open>e\<close> or \<open>E\<close>, an optional sign and at least one digit. The value of
  the exponent at the head of the text, 0 when the text does not start with one.
\<close>

definition exponentPart :: "jstring \<Rightarrow> int" where
  "exponentPart s =
     (case s of
        [] \<Rightarrow> 0
      | c # r \<Rightarrow>
          if c = 0x65 \<or> c = 0x45 then
            (case r of
               [] \<Rightarrow> 0
             | x # r' \<Rightarrow>
                 if x = 0x2B then int (digitsValue (takeWhile isDigit r'))
                 else if x = 0x2D then - int (digitsValue (takeWhile isDigit r'))
                 else int (digitsValue (takeWhile isDigit r)))
          else 0)"

text \<open>
  The value of the longest prefix that is a StrUnsignedDecimalLiteral:
  \<open>Infinity\<close>, digits with an optional fraction and exponent, or a point followed by
  digits and an optional exponent. \<open>None\<close> when no prefix is one.
\<close>

definition unsignedLiteral :: "jstring \<Rightarrow> number option" where
  "unsignedLiteral s =
     (if take 8 s = ascii ''Infinity'' then Some PosInf
      else
        let ip = takeWhile isDigit s; r1 = dropWhile isDigit s in
        (case r1 of
           [] \<Rightarrow> if ip = [] then None else Some (Fin (of_nat (digitsValue ip)))
         | c # r2 \<Rightarrow>
             if c = 0x2E \<and> (ip \<noteq> [] \<or> takeWhile isDigit r2 \<noteq> []) then
               let fp = takeWhile isDigit r2; r3 = dropWhile isDigit r2 in
               Some (Fin (scale10 (of_nat (digitsValue ip) + of_nat (digitsValue fp) / 10 ^ length fp)
                            (exponentPart r3)))
             else if ip = [] then None
             else Some (Fin (scale10 (of_nat (digitsValue ip)) (exponentPart r1)))))"

text \<open>
  \<open>parseFloat\<close>: leading white space is skipped, then the longest prefix that is a
  StrDecimalLiteral (an optional sign and an unsigned literal) gives the value; NaN when
  there is none.
\<close>

definition parseFloat :: "jstring \<Rightarrow> number" where
  "parseFloat s =
     (case trimStart s of
        [] \<Rightarrow> NaN
      | c # r \<Rightarrow>
          if c = 0x2B then (case unsignedLiteral r of None \<Rightarrow> NaN | Some v \<Rightarrow> v)
          else if c = 0x2D then (case unsignedLiteral r of None \<Rightarrow> NaN | Some v \<Rightarrow> number_neg v)
          else (case unsignedLiteral (c # r) of None \<Rightarrow> NaN | Some v \<Rightarrow> v))"

section \<open>dataAnalyzer.ts: extractPowerValue\<close>

text \<open>
  The regular expression \<open>/[kw|KW|...]/gi\<close> is a character class: it matches one code
  unit that is \<open>k\<close>, \<open>w\<close>, \<open>|\<close>, \<open>K\<close>, \<open>W\<close>, U+5343 or U+74E6. Ignoring case adds
  no further code unit (only \<open>k\<close> and \<open>w\<close> have these upper-case forms).
  \<open>replace\<close> with the global flag removes every match.
\<close>

definition powerUnitChars :: "code_unit list" where
  "powerUnitChars = [0x6B, 0x77, 0x7C, 0x4B, 0x57, 0x5343, 0x74E6]"

definition removeUnits :: "jstring \<Rightarrow> jstring" where
  "removeUnits s = filter (\<lambda>c. c \<notin> set powerUnitChars) s"

definition extractPowerValue :: "jstring \<Rightarrow> number" where
  "extractPowerValue powerStr =
     (if powerStr = [] \<or> trim powerStr = [] then Fin 0
      else
        let cleanStr = trim (removeUnits powerStr);
            v = parseFloat cleanStr
        in if v = NaN then Fin 0 else v)"

text \<open>
  DeviceDetail.tsx (lines 105, 106, 130 and 315) and the analysis page compute a
  component's power as \<open>parseFloat(text.replace(/[^\d.]/g, '')) || 0\<close>: every code unit
  that is not a digit or a point is removed before parsing, and NaN and zero give 0.
\<close>

definition keepNumeric :: "jstring \<Rightarrow> jstring" where
  "keepNumeric s = filter (\<lambda>c. isDigit c \<or> c = 0x2E) s"

definition detailPowerValue :: "jstring \<Rightarrow> number" where
  "detailPowerValue powerStr =
     (let v = parseFloat (keepNumeric powerStr)
      in if v = NaN \<or> v = Fin 0 then Fin 0 else v)"

section \<open>dataAnalyzer.ts: generateStatistics\<close>

text \<open>
  The two frequency tables are plain objects created by \<open>{}\<close> and used as
  dictionaries: \<open>table[key] = (table[key] || 0) + 1\<close>. A plain object inherits the
  properties of \<open>Object.prototype\<close>, so reading a key that the table does not own
  gives \<open>undefined\<close> only when the key is not one of them. For an inherited key the
  read gives a function (an object for \<open>__proto__\<close>), which is truthy, and \<open>+ 1\<close>
  then concatenates text: the value stored is a string and not a count. Writing
  \<open>__proto__\<close> calls the inherited setter, which ignores a string, so nothing is stored.

  A table is the list of its own properties in the order of their creation (the place
  that JavaScript gives to integer-like keys is not modelled). A value is a count or
  such a string (its text depends on the engine and is not modelled).
\<close>

datatype tally = Count nat | Garbled

type_synonym table = "(jstring \<times> tally) list"

definition objectPrototypeKeys :: "jstring list" where
  "objectPrototypeKeys = map ascii
     [''constructor'', ''__defineGetter__'', ''__defineSetter__'', ''hasOwnProperty'',
      ''__lookupGetter__'', ''__lookupSetter__'', ''isPrototypeOf'', ''propertyIsEnumerable'',
      ''toString'', ''valueOf'', ''__proto__'', ''toLocaleString'']"

text \<open>\<open>(table[key] || 0) + 1\<close>\<close>

definition nextTally :: "table \<Rightarrow> jstring \<Rightarrow> tally" where
  "nextTally t k =
     (case map_of t k of
        Some (Count n) \<Rightarrow> Count (n + 1)
      | Some Garbled \<Rightarrow> Garbled
      | None \<Rightarrow> if k \<in> set objectPrototypeKeys then Garbled else Count 1)"

text \<open>\<open>table[key] = v\<close>\<close>

definition setProp :: "table \<Rightarrow> jstring \<Rightarrow> tally \<Rightarrow> table" where
  "setProp t k v =
     (if k = ascii ''__proto__'' then t
      else if map_of t k = None then t @ [(k, v)]
      else map (\<lambda>(k', v'). if k' = k then (k', v) else (k', v')) t)"

definition increment :: "table \<Rightarrow> jstring \<Rightarrow> table" where
  "increment t k = setProp t k (nextTally t k)"

text \<open>The fallback label U+672A U+5206 U+7C7B of \<open>key || label\<close>.\<close>

definition uncategorized :: jstring where
  "uncategorized = [0x672A, 0x5206, 0x7C7B]"

definition orLabel :: "jstring \<Rightarrow> jstring" where
  "orLabel s = (if s = [] then uncategorized else s)"

text \<open>
  The fields of \<open>Statistics\<close>: the device total (U+8BBE U+5907 U+603B U+6570), the
  component total (U+96F6 U+90E8 U+4EF6 U+603B U+6570), the power sum (U+7535 U+673A
  U+529F U+7387 U+6C47 U+603B), the table of devices by work location (U+8BBE U+5907
  U+5206 U+7C7B U+7EDF U+8BA1) and the table of components by name (U+96F6 U+90E8
  U+4EF6 U+5206 U+7C7B U+7EDF U+8BA1). The interface declares both tables as
  \<open>Record<string, number>\<close>.
\<close>

record Statistics =
  deviceTotal :: nat
  componentTotal :: nat
  powerSum :: number
  deviceCategories :: table
  componentCategories :: table

definition generateStatistics :: "Device list \<Rightarrow> Statistics" where
  "generateStatistics ds =
     \<lparr>deviceTotal = length ds,
      componentTotal = foldl (\<lambda>total d. total + length (d_components d)) 0 ds,
      powerSum = foldl (\<lambda>acc d.
                   foldl (\<lambda>a c. number_add a (extractPowerValue (c_power c))) acc (d_components d))
                 (Fin 0) ds,
      deviceCategories = foldl (\<lambda>t d. increment t (orLabel (d_workLocation d))) [] ds,
      componentCategories = foldl (\<lambda>t d.
                   foldl (\<lambda>t' c. increment t' (orLabel (c_name c))) t (d_components d))
                 [] ds\<rparr>"

text \<open>The counts a table holds, added up; a value that is not a count adds nothing.\<close>

definition tallyCount :: "tally \<Rightarrow> nat" where
  "tallyCount v = (case v of Count n \<Rightarrow> n | Garbled \<Rightarrow> 0)"

definition sumCounts :: "table \<Rightarrow> nat" where
  "sumCounts t = sum_list (map (\<lambda>p. tallyCount (snd p)) t)"

definition isCount :: "tally \<Rightarrow> bool" where
  "isCount v = (case v of Count n \<Rightarrow> True | Garbled \<Rightarrow> False)"

text \<open>The three rows of the scenario of the specification.\<close>

definition scenarioRows :: "RawCSVRow list" where
  "scenarioRows =
     [mkRow ''HC-001'' ''Loc-A'' ''PartX'' ''Spec1'' ''2KW'' '''' '''',
      mkRow '''' '''' ''PartY'' ''Spec2'' '''' ''0.5KW'' '''',
      mkRow ''HC-002'' ''Loc-B'' ''PartZ'' ''Spec3'' ''1'' '''' '''']"

definition mkComponent :: "string \<Rightarrow> string \<Rightarrow> string \<Rightarrow> string \<Rightarrow> string \<Rightarrow> string \<Rightarrow> Component" where
  "mkComponent i n s q p r =
     \<lparr>c_id = ascii i, c_name = ascii n, c_spec = ascii s, c_quantity = ascii q,
      c_power = ascii p, c_remark = ascii r\<rparr>"

definition mkDevice :: "string \<Rightarrow> string \<Rightarrow> string \<Rightarrow> Component list \<Rightarrow> Device" where
  "mkDevice i c l cs =
     \<lparr>d_id = ascii i, d_deviceCode = ascii c, d_workLocation = ascii l, d_components = cs\<rparr>"

section \<open>csvParser.ts: validateData\<close>

record ValidationResult =
  isValid :: bool
  errors :: "jstring list"
  warnings :: "jstring list"

text \<open>
  The messages of the source: "CSV" U+6587 U+4EF6 U+4E3A U+7A7A U+6216 U+65E0 U+6709
  U+6548 U+6570 U+636E (the file is empty or has no valid data); U+7F3A U+5C11 U+5FC5
  U+8981 U+7684 U+5217 ": " (required columns are missing), followed by the missing
  names; U+672A U+627E U+5230 U+6709 U+6548 U+7684 U+8BBE U+5907 U+6570 U+636E (no valid
  device data); U+672A U+627E U+5230 U+96F6 U+90E8 U+4EF6 U+6570 U+636E (no component
  data); and U+7B2C, the row number, U+884C U+7535 U+673A U+529F U+7387 U+683C U+5F0F
  U+53EF U+80FD U+4E0D U+6B63 U+786E ": " and the text (the power format of the row may
  be wrong).
\<close>

definition msgEmpty :: jstring where
  "msgEmpty = ascii ''CSV'' @
     [0x6587, 0x4EF6, 0x4E3A, 0x7A7A, 0x6216, 0x65E0, 0x6709, 0x6548, 0x6570, 0x636E]"

definition msgMissingPrefix :: jstring where
  "msgMissingPrefix = [0x7F3A, 0x5C11, 0x5FC5, 0x8981, 0x7684, 0x5217] @ ascii '': ''"

definition msgNoDevice :: jstring where
  "msgNoDevice = [0x672A, 0x627E, 0x5230, 0x6709, 0x6548, 0x7684, 0x8BBE, 0x5907, 0x6570, 0x636E]"

definition msgNoComponent :: jstring where
  "msgNoComponent = [0x672A, 0x627E, 0x5230, 0x96F6, 0x90E8, 0x4EF6, 0x6570, 0x636E]"

definition msgPower :: "nat \<Rightarrow> jstring \<Rightarrow> jstring" where
  "msgPower n txt = [0x7B2C] @ showNat n @
     [0x884C, 0x7535, 0x673A, 0x529F, 0x7387, 0x683C, 0x5F0F, 0x53EF, 0x80FD, 0x4E0D, 0x6B63, 0x786E] @
     ascii '': '' @ txt"

text \<open>\<open>Array.prototype.join\<close>\<close>

fun joinWith :: "jstring \<Rightarrow> jstring list \<Rightarrow> jstring" where
  "joinWith sep [] = []"
| "joinWith sep [x] = x"
| "joinWith sep (x # y # zs) = x @ sep @ joinWith sep (y # zs)"

text \<open>The required columns in the order of the source, each with the test \<open>col in firstRow\<close>.\<close>

definition requiredColumns :: "(jstring \<times> (RawCSVRow \<Rightarrow> jstring option)) list" where
  "requiredColumns =
     [(col_deviceCode, row_deviceCode), (col_workLocation, row_workLocation),
      (col_componentName, row_componentName), (col_spec, row_spec),
      (col_quantity, row_quantity), (col_power, row_power), (col_remark, row_remark)]"

definition missingColumns :: "RawCSVRow \<Rightarrow> jstring list" where
  "missingColumns firstRow = map fst (filter (\<lambda>col. snd col firstRow = None) requiredColumns)"

text \<open>
  The counting loop: a row whose device identifier is the header text is skipped; any
  other row counts as a device row and as a component row when the cell is not blank.
\<close>

definition countRow :: "nat \<times> nat \<Rightarrow> RawCSVRow \<Rightarrow> nat \<times> nat" where
  "countRow counts row =
     (if row_deviceCode row = Some col_deviceCode then counts
      else (fst counts + (if nonBlank (row_deviceCode row) then 1 else 0),
            snd counts + (if nonBlank (row_componentName row) then 1 else 0)))"

text \<open>
  The pattern \<open>/^\d*\.?\d*(kw|KW|...)?$/i\<close>: digits, an optional point, digits, and an
  optional unit, which is \<open>kw\<close> in any case or U+5343 U+74E6.
\<close>

definition powerUnits :: "jstring list" where
  "powerUnits = [ascii ''kw'', ascii ''kW'', ascii ''Kw'', ascii ''KW'', [0x5343, 0x74E6]]"

definition powerPattern :: "jstring \<Rightarrow> bool" where
  "powerPattern s =
     (let r1 = dropWhile isDigit s;
          r2 = (case r1 of [] \<Rightarrow> [] | c # r \<Rightarrow> if c = 0x2E then r else r1);
          r3 = dropWhile isDigit r2
      in r3 = [] \<or> r3 \<in> set powerUnits)"

text \<open>The second loop: one warning for each row whose power text does not match.\<close>

definition powerWarnings :: "RawCSVRow list \<Rightarrow> jstring list" where
  "powerWarnings rows =
     concat (map (\<lambda>p. if nonBlank (row_power (snd p)) \<and>
                          \<not> powerPattern (trimOrEmpty (row_power (snd p)))
                       then [msgPower (fst p + 1) (trimOrEmpty (row_power (snd p)))]
                       else [])
                 (enumerate 0 rows))"

text \<open>
  \<open>validateData\<close>: the early return for no rows (the test \<open>!rows\<close> of the source is
  for a value that the type \<open>RawCSVRow[]\<close> excludes), then the column check on the first
  row, the counting loop and the power-format loop.
\<close>

definition validateData :: "RawCSVRow list \<Rightarrow> ValidationResult" where
  "validateData rows =
     (case rows of
        [] \<Rightarrow> \<lparr>isValid = False, errors = [msgEmpty], warnings = []\<rparr>
      | firstRow # rest \<Rightarrow>
          let missing = missingColumns firstRow;
              errors1 = (if missing \<noteq> [] then [msgMissingPrefix @ joinWith (ascii '', '') missing]
                         else []);
              counts = foldl countRow (0, 0) rows;
              errors2 = errors1 @ (if fst counts = 0 then [msgNoDevice] else []);
              warnings1 = (if snd counts = 0 then [msgNoComponent] else []);
              warnings2 = warnings1 @ powerWarnings rows
          in \<lparr>isValid = (errors2 = []), errors = errors2, warnings = warnings2\<rparr>)"

text \<open>A first row that has every column but the remark column.\<close>

definition lacksOnlyRemark :: "RawCSVRow \<Rightarrow> bool" where
  "lacksOnlyRemark row =
     (row_deviceCode row \<noteq> None \<and> row_workLocation row \<noteq> None \<and>
      row_componentName row \<noteq> None \<and> row_spec row \<noteq> None \<and>
      row_quantity row \<noteq> None \<and> row_power row \<noteq> None \<and> row_remark row = None)"

text \<open>A row that the counting loop counts as a device.\<close>

definition countsAsDevice :: "RawCSVRow \<Rightarrow> bool" where
  "countsAsDevice row = (row_deviceCode row \<noteq> Some col_deviceCode \<and> nonBlank (row_deviceCode row))"

text \<open>Rows without the remark column, from six ASCII cells.\<close>

definition mkRow6 :: "string \<Rightarrow> string \<Rightarrow> string \<Rightarrow> string \<Rightarrow> string \<Rightarrow> string \<Rightarrow> RawCSVRow" where
  "mkRow6 a b c d e f =
     \<lparr>row_deviceCode = Some (ascii a), row_workLocation = Some (ascii b),
      row_componentName = Some (ascii c), row_spec = Some (ascii d),
      row_quantity = Some (ascii e), row_power = Some (ascii f), row_remark = None\<rparr>"

section \<open>dataAnalyzer.ts: filterDevices and searchDevices\<close>

text \<open>
  \<open>String.prototype.includes\<close>: the pattern occurs at some position of the text.
  \<open>String.prototype.toLowerCase\<close> follows the case mapping of the Unicode tables of
  the host; the functions below take it as the parameter \<open>lc\<close>.
\<close>

definition includesStr :: "jstring \<Rightarrow> jstring \<Rightarrow> bool" where
  "includesStr s t = list_ex (\<lambda>i. take (length t) (drop i s) = t) [0..<Suc (length s)]"

text \<open>
  The fields of \<open>FilterOptions\<close>, all optional: device code, work location, component
  name and spec.
\<close>

record FilterOptions =
  f_deviceCode :: "jstring option"
  f_workLocation :: "jstring option"
  f_componentName :: "jstring option"
  f_spec :: "jstring option"

text \<open>\<open>filters.x && !value.toLowerCase().includes(filters.x.toLowerCase())\<close>\<close>

definition fieldMismatch :: "(jstring \<Rightarrow> jstring) \<Rightarrow> jstring option \<Rightarrow> jstring \<Rightarrow> bool" where
  "fieldMismatch lc criterion v =
     (case criterion of
        None \<Rightarrow> False
      | Some p \<Rightarrow> p \<noteq> [] \<and> \<not> includesStr (lc v) (lc p))"

text \<open>\<open>if (filters.x) { if (!components.some(...)) return false }\<close>\<close>

definition componentMismatch ::
  "(jstring \<Rightarrow> jstring) \<Rightarrow> jstring option \<Rightarrow> (Component \<Rightarrow> jstring) \<Rightarrow> Device \<Rightarrow> bool" where
  "componentMismatch lc criterion field device =
     (case criterion of
        None \<Rightarrow> False
      | Some p \<Rightarrow> p \<noteq> [] \<and> \<not> list_ex (\<lambda>c. includesStr (lc (field c)) (lc p)) (d_components device))"

definition filterDevices :: "(jstring \<Rightarrow> jstring) \<Rightarrow> Device list \<Rightarrow> FilterOptions \<Rightarrow> Device list" where
  "filterDevices lc ds filters =
     filter (\<lambda>device.
        if fieldMismatch lc (f_deviceCode filters) (d_deviceCode device) then False
        else if fieldMismatch lc (f_workLocation filters) (d_workLocation device) then False
        else if componentMismatch lc (f_componentName filters) c_name device then False
        else if componentMismatch lc (f_spec filters) c_spec device then False
        else True) ds"

definition searchDevices :: "(jstring \<Rightarrow> jstring) \<Rightarrow> Device list \<Rightarrow> jstring \<Rightarrow> Device list" where
  "searchDevices lc ds searchTerm =
     (if searchTerm = [] \<or> trim searchTerm = [] then ds
      else
        let term = trim (lc searchTerm) in
        filter (\<lambda>device.
           if includesStr (lc (d_deviceCode device)) term \<or> includesStr (lc (d_workLocation device)) term
           then True
           else list_ex (\<lambda>c. includesStr (lc (c_name c)) term \<or> includesStr (lc (c_spec c)) term \<or>
                              includesStr (lc (c_quantity c)) term \<or> includesStr (lc (c_power c)) term \<or>
                              includesStr (lc (c_remark c)) term) (d_components device)) ds)"

text \<open>A criterion that is absent or the empty string constrains nothing.\<close>

definition unset :: "jstring option \<Rightarrow> bool" where
  "unset criterion = (case criterion of None \<Rightarrow> True | Some p \<Rightarrow> p = [])"

definition noCriteria :: "FilterOptions \<Rightarrow> bool" where
  "noCriteria filters = (unset (f_deviceCode filters) \<and> unset (f_workLocation filters) \<and>
                         unset (f_componentName filters) \<and> unset (f_spec filters))"

text \<open>ASCII lower-casing, one instance of the parameter \<open>lc\<close>.\<close>

definition asciiLower :: "jstring \<Rightarrow> jstring" where
  "asciiLower s = map (\<lambda>c. if 0x41 \<le> c \<and> c \<le> 0x5A then c + 0x20 else c) s"

section \<open>dataAnalyzer.ts: paginateDevices\<close>

text \<open>
  \<open>page\<close> and \<open>pageSize\<close> are numbers; the model takes the integers among them (the
  caller passes a page number from 1 on and the page size 10).
  \<open>total / pageSize\<close> is an infinity or NaN when \<open>pageSize\<close> is zero. The quotient of
  two integers below \<open>2^53\<close> rounds to an integer only when it is one, so \<open>Math.ceil\<close>
  of the exact quotient is what the source computes.
\<close>

definition number_div :: "int \<Rightarrow> int \<Rightarrow> number" where
  "number_div a b =
     (if b = 0 then (if a = 0 then NaN else if 0 < a then PosInf else NegInf)
      else Fin (of_int a / of_int b))"

definition number_ceil :: "number \<Rightarrow> number" where
  "number_ceil x = (case x of Fin q \<Rightarrow> Fin (of_int \<lceil>q\<rceil>) | _ \<Rightarrow> x)"

text \<open>\<open>x < y\<close> on numbers: false when either is NaN.\<close>

fun number_less :: "number \<Rightarrow> number \<Rightarrow> bool" where
  "number_less NaN y = False"
| "number_less x NaN = False"
| "number_less PosInf y = False"
| "number_less x NegInf = False"
| "number_less NegInf y = True"
| "number_less x PosInf = True"
| "number_less (Fin a) (Fin b) = (a < b)"

text \<open>
  \<open>Array.prototype.slice(start, end)\<close>: a negative index counts from the end, and both
  indices are clamped to the array.
\<close>

definition relativeIndex :: "nat \<Rightarrow> int \<Rightarrow> nat" where
  "relativeIndex len i = (if i < 0 then nat (max (int len + i) 0) else min (nat i) len)"

definition slice :: "'a list \<Rightarrow> int \<Rightarrow> int \<Rightarrow> 'a list" where
  "slice xs start stop =
     (let k = relativeIndex (length xs) start;
          final = relativeIndex (length xs) stop
      in take (final - k) (drop k xs))"

record Page =
  data :: "Device list"
  total :: nat
  totalPages :: number

definition paginateDevices :: "Device list \<Rightarrow> int \<Rightarrow> int \<Rightarrow> Page" where
  "paginateDevices ds page pageSize =
     (let total = length ds;
          totalPages = number_ceil (number_div (int total) pageSize);
          startIndex = (page - 1) * pageSize;
          endIndex = startIndex + pageSize
      in \<lparr>data = slice ds startIndex endIndex, total = total, totalPages = totalPages\<rparr>)"

text \<open>
  The statement of the specification about one call: the total, the page count
  \<open>ceil(total / pageSize)\<close>, the slice of a 1-indexed page, and the empty slice for a
  page beyond the page count.
\<close>

definition paginateSpec :: "Device list \<Rightarrow> int \<Rightarrow> int \<Rightarrow> bool" where
  "paginateSpec ds page pageSize =
     (let r = paginateDevices ds page pageSize in
      total r = length ds \<and>
      totalPages r = Fin (of_int \<lceil>(of_nat (length ds) :: rat) / of_int pageSize\<rceil>) \<and>
      (1 \<le> page \<longrightarrow> data r = take (nat pageSize) (drop (nat ((page - 1) * pageSize)) ds)) \<and>
      (number_less (totalPages r) (Fin (of_int page)) \<longrightarrow> data r = []))"

text \<open>Three devices without components.\<close>

definition threeDevices :: "Device list" where
  "threeDevices = [mkDevice ''device-1'' ''HC-001'' ''A'' [], mkDevice ''device-2'' ''HC-002'' ''B'' [],
                   mkDevice ''device-3'' ''HC-003'' ''C'' []]"

section \<open>dataAnalyzer.ts: sortDevices\<close>

text \<open>
  \<open>sortDevices\<close> is \<open>orderBy(devices, [field], [direction])\<close>, where \<open>orderBy\<close> is
  the function of the lodash library, a dependency whose code is not part of the
  repository. The definitions below follow the algorithm of lodash 4 (\<open>baseOrderBy\<close>,
  \<open>compareMultiple\<close>, \<open>compareAscending\<close>): every element is paired with the values
  of the named properties and with its index, and the pairs are sorted by comparing
  the values with \<open><\<close> and \<open>>\<close>, a descending order negating the result, and by the
  index when all values compare equal.

  \<open>SortOptions.field\<close> is \<open>keyof Device | keyof Component\<close>: the nine names below.
\<close>

datatype sortField = F_id | F_deviceCode | F_workLocation | F_components
  | F_componentName | F_spec | F_quantity | F_power | F_remark

datatype direction = Asc | Desc

record SortOptions =
  so_field :: sortField
  so_direction :: direction

text \<open>
  The value of \<open>device[field]\<close>: a device has the properties \<open>id\<close>, device code, work
  location and component list; the names of component fields are not properties of
  a device and read as \<open>undefined\<close>.
\<close>

datatype jsvalue = Undefined | StringValue jstring | ArrayValue "Component list"

definition getField :: "Device \<Rightarrow> sortField \<Rightarrow> jsvalue" where
  "getField d f =
     (case f of
        F_id \<Rightarrow> StringValue (d_id d)
      | F_deviceCode \<Rightarrow> StringValue (d_deviceCode d)
      | F_workLocation \<Rightarrow> StringValue (d_workLocation d)
      | F_components \<Rightarrow> ArrayValue (d_components d)
      | _ \<Rightarrow> Undefined)"

text \<open>\<open><\<close> on strings compares code units, the first difference deciding.\<close>

fun stringLess :: "jstring \<Rightarrow> jstring \<Rightarrow> bool" where
  "stringLess [] [] = False"
| "stringLess [] (y # ys) = True"
| "stringLess (x # xs) [] = False"
| "stringLess (x # xs) (y # ys) = (x < y \<or> (x = y \<and> stringLess xs ys))"

text \<open>
  The text that \<open><\<close> compares: an array of objects converts to the texts
  \<open>[object Object]\<close> of its elements, joined by commas.
\<close>

definition valueText :: "jsvalue \<Rightarrow> jstring" where
  "valueText v =
     (case v of
        Undefined \<Rightarrow> []
      | StringValue s \<Rightarrow> s
      | ArrayValue cs \<Rightarrow> joinWith (ascii '','') (map (\<lambda>c. ascii ''[object Object]'') cs))"

definition compareAscending :: "jsvalue \<Rightarrow> jsvalue \<Rightarrow> int" where
  "compareAscending v other =
     (if v = Undefined \<and> other = Undefined then 0
      else if v = Undefined then 1
      else if other = Undefined then - 1
      else if stringLess (valueText other) (valueText v) then 1
      else if stringLess (valueText v) (valueText other) then - 1
      else 0)"

fun compareMultiple :: "jsvalue list \<Rightarrow> jsvalue list \<Rightarrow> direction list \<Rightarrow> int" where
  "compareMultiple (c # cs) (c' # cs') orders =
     (let result = compareAscending c c' in
      if result \<noteq> 0 then
        (case orders of
           [] \<Rightarrow> result
         | order # _ \<Rightarrow> result * (if order = Desc then - 1 else 1))
      else compareMultiple cs cs' (drop 1 orders))"
| "compareMultiple _ _ orders = 0"

text \<open>An element with its criteria and its index, and the comparison of two of them.\<close>

type_synonym 'a keyed = "jsvalue list \<times> nat \<times> 'a"

definition comparer :: "direction list \<Rightarrow> 'a keyed \<Rightarrow> 'a keyed \<Rightarrow> int" where
  "comparer orders x y =
     (let r = compareMultiple (fst x) (fst y) orders in
      if r \<noteq> 0 then r else int (fst (snd x)) - int (fst (snd y)))"

text \<open>
  The indices make \<open>comparer\<close> a strict order of the elements, so the sorted array does
  not depend on the sorting algorithm; insertion sort gives it.
\<close>

fun insertSorted :: "('a \<Rightarrow> 'a \<Rightarrow> int) \<Rightarrow> 'a \<Rightarrow> 'a list \<Rightarrow> 'a list" where
  "insertSorted cmp x [] = [x]"
| "insertSorted cmp x (y # ys) = (if cmp x y \<le> 0 then x # y # ys else y # insertSorted cmp x ys)"

definition sortWith :: "('a \<Rightarrow> 'a \<Rightarrow> int) \<Rightarrow> 'a list \<Rightarrow> 'a list" where
  "sortWith cmp xs = foldr (insertSorted cmp) xs []"

definition orderBy :: "Device list \<Rightarrow> sortField list \<Rightarrow> direction list \<Rightarrow> Device list" where
  "orderBy ds iteratees orders =
     map (\<lambda>k. snd (snd k))
       (sortWith (comparer orders)
          (map (\<lambda>p. (map (getField (snd p)) iteratees, fst p, snd p)) (enumerate 0 ds)))"

definition sortDevices :: "Device list \<Rightarrow> SortOptions \<Rightarrow> Device list" where
  "sortDevices ds sortOptions = orderBy ds [so_field sortOptions] [so_direction sortOptions]"

text \<open>Two devices: the codes "a" and "B", the powers "2KW" and "10KW".\<close>

definition deviceLowerA :: Device where
  "deviceLowerA = mkDevice ''device-1'' ''a'' ''Loc''
     [mkComponent ''component-1'' ''Motor'' '''' ''1'' ''2KW'' '''']"

definition deviceUpperB :: Device where
  "deviceUpperB = mkDevice ''device-2'' ''B'' ''Loc''
     [mkComponent ''component-2'' ''Motor'' '''' ''1'' ''10KW'' '''']"

section \<open>Predicates for the boundary of the departures\<close>

text \<open>A code unit that is a digit, a point, or one that \<open>extractPowerValue\<close> removes.\<close>

definition numericOrUnit :: "code_unit \<Rightarrow> bool" where
  "numericOrUnit c = (isDigit c \<or> c = 0x2E \<or> c \<in> set powerUnitChars)"

text \<open>The sort fields that name a property of a component and not of a device.\<close>

definition componentOnly :: "sortField \<Rightarrow> bool" where
  "componentOnly f = (f = F_componentName \<or> f = F_spec \<or> f = F_quantity \<or> f = F_power \<or> f = F_remark)"

text \<open>A label that is not the name of a property of \<open>Object.prototype\<close>.\<close>

definition ownLabel :: "jstring \<Rightarrow> bool" where
  "ownLabel k = (k \<notin> set objectPrototypeKeys)"

text \<open>A table with one entry for each key, every entry a count.\<close>

definition tableOk :: "table \<Rightarrow> bool" where
  "tableOk t = (distinct (map fst t) \<and> list_all (\<lambda>p. isCount (snd p)) t)"

text \<open>The keys that \<open>generateStatistics\<close> counts, in the order of the two loops.\<close>

definition deviceLabels :: "Device list \<Rightarrow> jstring list" where
  "deviceLabels ds = map (\<lambda>d. orLabel (d_workLocation d)) ds"

definition componentLabels :: "Device list \<Rightarrow> jstring list" where
  "componentLabels ds = map (\<lambda>c. orLabel (c_name c)) (concat (map d_components ds))"

section \<open>Counting devices and components\<close>

lemma flush_openDevice_length:
  "length (flush (openDevice st row)) = length (flush st) + (if isDeviceRow row then 1 else 0)"
  by (simp add: flush_def openDevice_def isDeviceRow_def split: option.splits)

lemma flush_addComponent_length:
  "length (flush (addComponent st row)) = length (flush st)"
  by (simp add: flush_def addComponent_def split: option.splits)

lemma flush_foldl_length:
  "length (flush (foldl processRow st rows)) = length (flush st) + length (filter isDeviceRow rows)"
proof (induction rows arbitrary: st)
  case Nil
  show ?case by simp
next
  case (Cons row rows)
  have "length (flush (processRow st row)) = length (flush st) + (if isDeviceRow row then 1 else 0)"
    by (simp add: processRow_def flush_addComponent_length flush_openDevice_length)
  with Cons.IH [of "processRow st row"] show ?case by simp
qed

lemma total_flush_openDevice:
  "totalComponents (flush (openDevice st row)) = totalComponents (flush st)"
  by (simp add: flush_def openDevice_def totalComponents_def split: option.splits)

lemma total_flush_addComponent:
  "totalComponents (flush (addComponent st row)) =
     totalComponents (flush st) + (if isComponentRow row \<and> currentDevice st \<noteq> None then 1 else 0)"
  by (auto simp add: flush_def addComponent_def totalComponents_def isComponentRow_def split: option.splits)

lemma currentDevice_addComponent:
  "(currentDevice (addComponent st row) = None) = (currentDevice st = None)"
  by (simp add: addComponent_def split: option.splits)

lemma currentDevice_openDevice:
  "(currentDevice (openDevice st row) = None) = (currentDevice st = None \<and> \<not> isDeviceRow row)"
  by (simp add: openDevice_def isDeviceRow_def split: option.splits)

lemma total_foldl_open:
  "currentDevice st \<noteq> None \<Longrightarrow>
   totalComponents (flush (foldl processRow st rows)) =
     totalComponents (flush st) + length (filter isComponentRow rows)"
proof (induction rows arbitrary: st)
  case Nil
  show ?case by simp
next
  case (Cons row rows)
  let ?st' = "processRow st row"
  have op: "currentDevice ?st' \<noteq> None"
    using Cons.prems by (simp add: processRow_def currentDevice_addComponent currentDevice_openDevice)
  have "totalComponents (flush ?st') = totalComponents (flush st) + (if isComponentRow row then 1 else 0)"
    using Cons.prems
    by (simp add: processRow_def total_flush_addComponent total_flush_openDevice currentDevice_openDevice)
  with Cons.IH [OF op] show ?case by simp
qed

lemma total_foldl_closed:
  "currentDevice st = None \<Longrightarrow>
   totalComponents (flush (foldl processRow st rows)) =
     totalComponents (flush st) +
     length (filter isComponentRow (dropWhile (\<lambda>row. \<not> isDeviceRow row) rows))"
proof (induction rows arbitrary: st)
  case Nil
  show ?case by simp
next
  case (Cons row rows)
  let ?st' = "processRow st row"
  show ?case
  proof (cases "isDeviceRow row")
    case True
    have op: "currentDevice ?st' \<noteq> None"
      using True by (simp add: processRow_def currentDevice_addComponent currentDevice_openDevice)
    have "totalComponents (flush ?st') = totalComponents (flush st) + (if isComponentRow row then 1 else 0)"
      using True
      by (simp add: processRow_def total_flush_addComponent total_flush_openDevice currentDevice_openDevice)
    with total_foldl_open [OF op, of rows] True show ?thesis by simp
  next
    case False
    have cl: "currentDevice ?st' = None"
      using False Cons.prems by (simp add: processRow_def currentDevice_addComponent currentDevice_openDevice)
    have "totalComponents (flush ?st') = totalComponents (flush st)"
      using False Cons.prems
      by (simp add: processRow_def total_flush_addComponent total_flush_openDevice currentDevice_openDevice)
    with Cons.IH [OF cl] False show ?thesis by simp
  qed
qed

text \<open>
  Claim C1. For every row sequence, \<open>processInheritance\<close> produces as many devices as
  there are rows with a non-blank device identifier among the rows that survive the
  filter (header rows and rows without content removed), and the components of all
  produced devices together are as many as the surviving rows with a non-blank component
  name from the first device-opening row on; component rows before it add nothing.
\<close>

theorem processInheritance_counts:
  "length (processInheritance rows) = length (filter isDeviceRow (validRows rows)) \<and>
   totalComponents (processInheritance rows) =
     length (filter isComponentRow (dropWhile (\<lambda>row. \<not> isDeviceRow row) (validRows rows)))"
proof -
  have a: "length (flush initialState) = 0" by (simp add: flush_def initialState_def)
  have b: "totalComponents (flush initialState) = 0"
    by (simp add: flush_def initialState_def totalComponents_def)
  have c: "currentDevice initialState = None" by (simp add: initialState_def)
  show ?thesis
    unfolding processInheritance_def
    using flush_foldl_length [of initialState "validRows rows"] total_foldl_closed [OF c, of "validRows rows"]
    by (simp add: a b)
qed

theorem processInheritance_counts_witness:
  "length (processInheritance w_rows) = 1 \<and> totalComponents (processInheritance w_rows) = 2"
proof -
  have a: "length (filter isDeviceRow (validRows w_rows)) = 1"
    by code_simp
  have b: "length (filter isComponentRow (dropWhile (\<lambda>row. \<not> isDeviceRow row) (validRows w_rows))) = 2"
    by code_simp
  show ?thesis using processInheritance_counts [of w_rows] a b by simp
qed

text \<open>
  The content test of the row filter changes nothing: a row without content neither
  opens a device nor adds a component, so only the header test of the filter matters.
\<close>

lemma nonBlank_hasContent:
  "nonBlank (row_deviceCode row) \<or> nonBlank (row_componentName row) \<Longrightarrow> hasContent row"
  by (auto simp add: nonBlank_def hasContent_def objectValues_def List.map_filter_def
      split: option.splits)

lemma processRow_no_content: "\<not> hasContent row \<Longrightarrow> processRow st row = st"
  using nonBlank_hasContent [of row]
  by (auto simp add: processRow_def openDevice_def addComponent_def)

lemma foldl_processRow_filter:
  "foldl processRow st (filter hasContent rows) = foldl processRow st rows"
  by (induction rows arbitrary: st) (simp_all add: processRow_no_content)

lemma processInheritance_header_filter:
  "processInheritance rows =
     flush (foldl processRow initialState (filter (\<lambda>row. \<not> isHeaderRow row) rows))"
proof -
  have v: "validRows rows = filter hasContent (filter (\<lambda>row. \<not> isHeaderRow row) rows)"
    by (simp add: validRows_def conj_commute)
  show ?thesis unfolding processInheritance_def v by (simp only: foldl_processRow_filter)
qed

section \<open>Trimmed fields\<close>

lemma dropWhile_rev_noop:
  "xs \<noteq> [] \<Longrightarrow> \<not> P (last xs) \<Longrightarrow> dropWhile P (rev xs) = rev xs"
  by (cases xs rule: rev_cases) auto

lemma dropWhile_noop:
  "xs \<noteq> [] \<Longrightarrow> \<not> P (hd xs) \<Longrightarrow> dropWhile P xs = xs"
  by (cases xs) auto

lemma trimmed_ends:
  "s \<noteq> [] \<Longrightarrow> \<not> isWhiteSpace (hd s) \<Longrightarrow> \<not> isWhiteSpace (last s) \<Longrightarrow> trimmed s"
  by (simp add: trimmed_def trim_def trimStart_def trimEnd_def dropWhile_noop dropWhile_rev_noop)

lemma trimmed_Nil: "trimmed []"
  by (simp add: trimmed_def trim_def trimStart_def trimEnd_def)

lemma trimEnd_ends:
  "t \<noteq> [] \<Longrightarrow> \<not> P (hd t) \<Longrightarrow>
   rev (dropWhile P (rev t)) \<noteq> [] \<and> hd (rev (dropWhile P (rev t))) = hd t \<and>
   \<not> P (last (rev (dropWhile P (rev t))))"
proof (induction t rule: rev_induct)
  case Nil
  then show ?case by simp
next
  case (snoc x xs)
  show ?case
  proof (cases "P x")
    case False
    then show ?thesis by simp
  next
    case True
    with snoc.prems have ne: "xs \<noteq> []" by (cases xs) auto
    with snoc.prems have "\<not> P (hd xs)" by simp
    from snoc.IH [OF ne this] True ne show ?thesis by simp
  qed
qed

lemma trimmed_trim: "trimmed (trim s)"
proof (cases "dropWhile isWhiteSpace s = []")
  case True
  have "trim s = []" unfolding trim_def trimStart_def trimEnd_def True by simp
  then show ?thesis by (simp add: trimmed_Nil)
next
  case False
  let ?t = "dropWhile isWhiteSpace s"
  have nw: "\<not> isWhiteSpace (hd ?t)" using False hd_dropWhile by blast
  note e = trimEnd_ends [of ?t isWhiteSpace, OF False nw]
  have t: "trim s = rev (dropWhile isWhiteSpace (rev ?t))"
    unfolding trim_def trimStart_def trimEnd_def by (rule refl)
  from e have 1: "trim s \<noteq> []" and 2: "hd (trim s) = hd ?t"
    and 3: "\<not> isWhiteSpace (last (trim s))"
    unfolding t by blast+
  from nw have 4: "\<not> isWhiteSpace (hd (trim s))" unfolding 2 .
  show ?thesis by (rule trimmed_ends [OF 1 4 3])
qed

lemma trimmed_trimOrEmpty: "trimmed (trimOrEmpty v)"
  by (simp add: trimOrEmpty_def trimmed_trim trimmed_Nil split: option.splits)

lemma nonBlank_trimOrEmpty: "nonBlank v \<Longrightarrow> trimOrEmpty v \<noteq> []"
  by (simp add: nonBlank_def trimOrEmpty_def split: option.splits)

lemma digitUnit_not_space: "d < 10 \<Longrightarrow> \<not> isWhiteSpace (digitUnit d)"
proof -
  assume "d < 10"
  then have "d \<in> {0, 1, 2, 3, 4, 5, 6, 7, 8, 9}" by auto
  then show ?thesis
    by (auto simp add: isWhiteSpace_def whiteSpaceUnits_def digitUnit_def)
qed

lemma showNat_last: "showNat n \<noteq> [] \<and> \<not> isWhiteSpace (last (showNat n))"
proof (induction n rule: showNat.induct)
  case (1 n)
  show ?case
    by (subst (1 2) showNat.simps) (simp add: digitUnit_not_space)
qed

lemma trimmed_id: "trimmed (ascii (CHR ''d'' # p) @ showNat n)" "trimmed (ascii (CHR ''c'' # p) @ showNat n)"
  using showNat_last [of n]
  by (auto intro!: trimmed_ends simp add: ascii_def isWhiteSpace_def whiteSpaceUnits_def)

lemma stateOk_initial: "stateOk initialState"
  by (simp add: stateOk_def initialState_def)

lemma stateOk_openDevice: "stateOk st \<Longrightarrow> stateOk (openDevice st row)"
  by (auto simp add: stateOk_def openDevice_def deviceOk_def trimmed_trimOrEmpty
      nonBlank_trimOrEmpty trimmed_id split: option.splits)

lemma stateOk_addComponent: "stateOk st \<Longrightarrow> stateOk (addComponent st row)"
  by (auto simp add: stateOk_def addComponent_def deviceOk_def componentOk_def
      trimmed_trimOrEmpty nonBlank_trimOrEmpty trimmed_id split: option.splits)

lemma stateOk_foldl: "stateOk st \<Longrightarrow> stateOk (foldl processRow st rows)"
  by (induction rows arbitrary: st)
     (simp_all add: processRow_def stateOk_openDevice stateOk_addComponent)

lemma stateOk_flush: "stateOk st \<Longrightarrow> list_all deviceOk (flush st)"
  by (simp add: stateOk_def flush_def split: option.splits)

text \<open>
  Claim C9. Every device that \<open>processInheritance\<close> produces has a non-empty device
  code, every component of it has a non-empty component name, and every string field of
  the devices and components (the generated ids included) equals its trimmed form.
\<close>

theorem processInheritance_trimmed:
  "list_all deviceOk (processInheritance rows)"
  unfolding processInheritance_def
  by (intro stateOk_flush stateOk_foldl stateOk_initial)

theorem processInheritance_trimmed_witness:
  "length (processInheritance w_rows) = 1 \<and> list_all deviceOk (processInheritance w_rows)"
proof -
  have "length (processInheritance w_rows) = 1" by code_simp
  then show ?thesis using processInheritance_trimmed [of w_rows] by simp
qed

section \<open>The three-row scenario\<close>

text \<open>
  Claim C2. On the three rows of the scenario \<open>processInheritance\<close> produces exactly
  two devices: HC-001 with the components PartX and PartY in this order, and HC-002
  with the component PartZ; and \<open>generateStatistics\<close> of this result has the power
  sum 0.5 (only the power text of PartY, "0.5KW", gives a value other than zero).
\<close>

theorem scenario_three_rows:
  "length (processInheritance scenarioRows) = 2 \<and>
   map d_deviceCode (processInheritance scenarioRows) = [ascii ''HC-001'', ascii ''HC-002''] \<and>
   map (\<lambda>d. map c_name (d_components d)) (processInheritance scenarioRows) =
     [[ascii ''PartX'', ascii ''PartY''], [ascii ''PartZ'']] \<and>
   processInheritance scenarioRows =
     [mkDevice ''device-1'' ''HC-001'' ''Loc-A''
        [mkComponent ''component-1'' ''PartX'' ''Spec1'' ''2KW'' [] [],
         mkComponent ''component-2'' ''PartY'' ''Spec2'' [] ''0.5KW'' []],
      mkDevice ''device-2'' ''HC-002'' ''Loc-B''
        [mkComponent ''component-3'' ''PartZ'' ''Spec3'' ''1'' [] []]] \<and>
   powerSum (generateStatistics (processInheritance scenarioRows)) = Fin (1 / 2)"
  by code_simp

section \<open>Validation\<close>

lemma foldl_countRow_fst_mono: "fst counts \<le> fst (foldl countRow counts rows)"
proof (induction rows arbitrary: counts)
  case Nil show ?case by simp
next
  case (Cons r rows)
  have "fst counts \<le> fst (countRow counts r)" by (simp add: countRow_def)
  with Cons.IH [of "countRow counts r"] show ?case by simp
qed

lemma foldl_countRow_pos:
  "list_ex countsAsDevice rows \<Longrightarrow> 0 < fst (foldl countRow counts rows)"
proof (induction rows arbitrary: counts)
  case Nil then show ?case by simp
next
  case (Cons r rows)
  show ?case
  proof (cases "countsAsDevice r")
    case True
    then have "0 < fst (countRow counts r)" by (simp add: countRow_def countsAsDevice_def)
    with foldl_countRow_fst_mono [of "countRow counts r" rows] show ?thesis by simp
  next
    case False
    with Cons.prems have "list_ex countsAsDevice rows" by simp
    from Cons.IH [OF this] show ?thesis by simp
  qed
qed

lemma missingColumns_remark:
  "lacksOnlyRemark row \<Longrightarrow> missingColumns row = [col_remark]"
  by (simp add: lacksOnlyRemark_def missingColumns_def requiredColumns_def)

text \<open>
  Claim C6. The result of \<open>validateData\<close> is valid exactly when its error list is
  empty, whatever its warnings are; and for the empty row sequence the result is the
  single error "the file is empty or has no valid data" with no warning: none of the
  other checks has run.
\<close>

theorem validateData_isValid:
  "isValid (validateData rows) = (errors (validateData rows) = []) \<and>
   validateData [] = \<lparr>isValid = False, errors = [msgEmpty], warnings = []\<rparr>"
  by (simp add: validateData_def Let_def split: list.splits)

text \<open>A valid input with a warning: the warning leaves \<open>isValid\<close> true.\<close>

theorem validateData_isValid_witness:
  "isValid (validateData [mkRow ''HC-001'' ''Loc'' [] [] [] [] []]) \<and>
   errors (validateData [mkRow ''HC-001'' ''Loc'' [] [] [] [] []]) = [] \<and>
   warnings (validateData [mkRow ''HC-001'' ''Loc'' [] [] [] [] []]) = [msgNoComponent]"
proof -
  have "errors (validateData [mkRow ''HC-001'' ''Loc'' [] [] [] [] []]) = [] \<and>
        warnings (validateData [mkRow ''HC-001'' ''Loc'' [] [] [] [] []]) = [msgNoComponent]"
    by code_simp
  then show ?thesis
    using validateData_isValid [of "[mkRow ''HC-001'' ''Loc'' [] [] [] [] []]"] by simp
qed

text \<open>
  Claim C7, as amended. For every row sequence whose first row has every recognized
  column but the remark column and in which some row counts as a device (its device
  identifier is not blank and is not the header text), \<open>validateData\<close> returns an
  invalid result whose only error is the missing-columns message naming the remark
  column. Without a device row the error "no valid device data" is reported as well.
\<close>

theorem validateData_missing_remark:
  assumes "rows = firstRow # rest" and "lacksOnlyRemark firstRow" and "list_ex countsAsDevice rows"
  shows "isValid (validateData rows) = False \<and>
         errors (validateData rows) = [msgMissingPrefix @ col_remark]"
proof -
  have m: "missingColumns firstRow = [col_remark]" using assms(2) by (rule missingColumns_remark)
  have c: "fst (foldl countRow (0, 0) rows) \<noteq> 0" using foldl_countRow_pos [OF assms(3), of "(0, 0)"] by simp
  show ?thesis using c unfolding assms(1) by (simp add: validateData_def Let_def m)
qed

text \<open>
  Claim C7 as stated fails: one row with the six other columns, all blank, gives two
  errors.
\<close>

theorem validateData_missing_remark_counterexample:
  "lacksOnlyRemark (mkRow6 [] [] [] [] [] []) \<and>
   length (errors (validateData [mkRow6 [] [] [] [] [] []])) = 2 \<and>
   errors (validateData [mkRow6 [] [] [] [] [] []]) = [msgMissingPrefix @ col_remark, msgNoDevice]"
  by code_simp

theorem validateData_missing_remark_witness:
  "lacksOnlyRemark (mkRow6 ''HC-001'' ''Loc'' ''PartX'' [] [] []) \<and>
   list_ex countsAsDevice [mkRow6 ''HC-001'' ''Loc'' ''PartX'' [] [] []] \<and>
   isValid (validateData [mkRow6 ''HC-001'' ''Loc'' ''PartX'' [] [] []]) = False \<and>
   errors (validateData [mkRow6 ''HC-001'' ''Loc'' ''PartX'' [] [] []]) = [msgMissingPrefix @ col_remark]"
proof -
  have a: "lacksOnlyRemark (mkRow6 ''HC-001'' ''Loc'' ''PartX'' [] [] [])"
    by code_simp
  have b: "list_ex countsAsDevice [mkRow6 ''HC-001'' ''Loc'' ''PartX'' [] [] []]"
    by code_simp
  show ?thesis
    using validateData_missing_remark [OF refl a b] a b by simp
qed

section \<open>Search and filter without effect\<close>

text \<open>
  Claim C8. \<open>generateStatistics\<close> is a function of the device list alone (the source
  reads nothing else and writes only its own local variables), so two runs on the same
  list give the same statistics. \<open>searchDevices\<close> with an empty or all-white-space
  term and \<open>filterDevices\<close> with no criterion (each absent or the empty string)
  return the device list itself, whatever the case mapping \<open>lc\<close> is.
\<close>

theorem noop_queries:
  "generateStatistics ds = generateStatistics ds \<and>
   (searchTerm = [] \<or> trim searchTerm = [] \<longrightarrow> searchDevices lc ds searchTerm = ds) \<and>
   (noCriteria filters \<longrightarrow> filterDevices lc ds filters = ds)"
  by (auto simp add: searchDevices_def filterDevices_def noCriteria_def unset_def
      fieldMismatch_def componentMismatch_def split: option.splits)

theorem noop_queries_witness:
  "searchDevices asciiLower threeDevices (ascii ''  '') = threeDevices \<and>
   filterDevices asciiLower threeDevices
     \<lparr>f_deviceCode = None, f_workLocation = Some [], f_componentName = None, f_spec = None\<rparr> =
     threeDevices"
proof -
  have a: "trim (ascii ''  '') = []" by code_simp
  have b: "noCriteria \<lparr>f_deviceCode = None, f_workLocation = Some [], f_componentName = None,
                       f_spec = None\<rparr>"
    by (simp add: noCriteria_def unset_def)
  show ?thesis
    using noop_queries [where searchTerm = "ascii ''  ''" and lc = asciiLower and ds = threeDevices
        and filters = "\<lparr>f_deviceCode = None, f_workLocation = Some [], f_componentName = None,
                        f_spec = None\<rparr>"] a b
    by simp
qed


section \<open>Pagination\<close>

lemma take_min_length: "take (min p (length xs)) xs = take p xs"
  by (simp add: min_def)

lemma slice_nat: "slice ds (int s) (int s + int p) = take p (drop s ds)"
proof (cases "s \<le> length ds")
  case True
  have "min (s + p) (length ds) - s = min p (length (drop s ds))"
    using True by (auto simp add: min_def)
  then have "slice ds (int s) (int s + int p) = take (min p (length (drop s ds))) (drop s ds)"
    using True by (simp add: slice_def relativeIndex_def Let_def nat_add_distrib min_absorb1)
  then show ?thesis by (simp only: take_min_length)
next
  case False
  then show ?thesis
    by (simp add: slice_def relativeIndex_def Let_def nat_add_distrib)
qed

lemma slice_page:
  assumes "0 < pageSize" and "1 \<le> page"
  shows "slice ds ((page - 1) * pageSize) ((page - 1) * pageSize + pageSize) =
         take (nat pageSize) (drop (nat ((page - 1) * pageSize)) ds)"
proof -
  have s0: "0 \<le> (page - 1) * pageSize" using assms by simp
  have a: "(page - 1) * pageSize = int (nat ((page - 1) * pageSize))" using s0 by simp
  have b: "pageSize = int (nat pageSize)" using assms(1) by simp
  show ?thesis
    using slice_nat [of ds "nat ((page - 1) * pageSize)" "nat pageSize"] a b by simp
qed

lemma ceil_page_bound:
  assumes "0 < pageSize" and "\<lceil>(of_nat n :: rat) / of_int pageSize\<rceil> < page"
  shows "int n \<le> (page - 1) * pageSize \<and> 1 \<le> page"
proof -
  have q0: "0 \<le> (of_nat n :: rat) / of_int pageSize" using assms(1) by simp
  then have c0: "0 \<le> \<lceil>(of_nat n :: rat) / of_int pageSize\<rceil>" by (simp add: zero_le_ceiling)
  have le: "\<lceil>(of_nat n :: rat) / of_int pageSize\<rceil> \<le> page - 1" using assms(2) by simp
  then have "(of_nat n :: rat) / of_int pageSize \<le> of_int (page - 1)" by (simp only: ceiling_le_iff)
  then have "(of_nat n :: rat) \<le> of_int (page - 1) * of_int pageSize"
    using assms(1) by (simp add: pos_divide_le_eq)
  then have "(of_int (int n) :: rat) \<le> of_int ((page - 1) * pageSize)" by simp
  then have r: "int n \<le> (page - 1) * pageSize" by (simp only: of_int_le_iff)
  have "1 \<le> page" using c0 le by linarith
  with r show ?thesis by blast
qed

text \<open>
  With the page size 0 the quotient is an infinity (NaN for the empty list), no page
  number is beyond it, and the slice is empty.
\<close>

lemma paginate_zero_size:
  "data (paginateDevices ds page 0) = [] \<and>
   total (paginateDevices ds page 0) = length ds \<and>
   totalPages (paginateDevices ds page 0) = (if ds = [] then NaN else PosInf) \<and>
   \<not> number_less (totalPages (paginateDevices ds page 0)) (Fin (of_int page))"
  by (simp add: paginateDevices_def Let_def slice_def number_div_def number_ceil_def)

text \<open>
  Claim C5. For every device list, every page number and every page size (a positive
  number of items), \<open>paginateDevices\<close> returns the total item count, the page count
  \<open>ceil(total / pageSize)\<close>, for a page number from 1 on the slice of \<open>pageSize\<close>
  items that starts at item \<open>(page - 1) * pageSize\<close>, and the empty slice for every
  page number beyond the page count.
\<close>

theorem paginate_positive:
  assumes "0 < pageSize"
  shows "paginateSpec ds page pageSize"
proof -
  have tp: "totalPages (paginateDevices ds page pageSize) =
            Fin (of_int \<lceil>(of_nat (length ds) :: rat) / of_int pageSize\<rceil>)"
    using assms by (simp add: paginateDevices_def Let_def number_div_def number_ceil_def)
  have sl: "1 \<le> page \<Longrightarrow> data (paginateDevices ds page pageSize) =
            take (nat pageSize) (drop (nat ((page - 1) * pageSize)) ds)"
    using slice_page [OF assms] by (simp add: paginateDevices_def Let_def)
  have em: "data (paginateDevices ds page pageSize) = []"
    if "\<lceil>(of_nat (length ds) :: rat) / of_int pageSize\<rceil> < page"
  proof -
    from ceil_page_bound [OF assms that] have b: "int (length ds) \<le> (page - 1) * pageSize"
      and p: "1 \<le> page" by simp_all
    from b have "length ds \<le> nat ((page - 1) * pageSize)" by simp
    then show ?thesis using sl [OF p] by simp
  qed
  show ?thesis
    unfolding paginateSpec_def Let_def tp
    using sl em by (simp add: paginateDevices_def Let_def)
qed

text \<open>Three devices in pages of two: page 3 is beyond the two pages and is empty.\<close>

theorem paginate_positive_witness:
  "(0::int) < 2 \<and> paginateSpec threeDevices 3 2 \<and> data (paginateDevices threeDevices 3 2) = [] \<and>
   totalPages (paginateDevices threeDevices 3 2) = Fin 2"
proof -
  have "data (paginateDevices threeDevices 3 2) = [] \<and>
        totalPages (paginateDevices threeDevices 3 2) = Fin 2" by code_simp
  then show ?thesis using paginate_positive [of 2 threeDevices 3] by simp
qed

section \<open>Where the code departs from the specification\<close>

text \<open>
  Claim C3 says that the power extraction of the aggregator removes every code unit
  that is not a digit or a point before parsing, as the other power computations of
  the repository do (\<open>detailPowerValue\<close>). \<open>extractPowerValue\<close> removes only the
  code units of its character class. On the text "P=0.37KW" it parses "P=0.37", which
  is no number, and returns 0; the rule of the claim parses "0.37".
\<close>

theorem extractPowerValue_prefixed_text:
  "extractPowerValue (ascii ''P=0.37KW'') = Fin 0 \<and>
   keepNumeric (ascii ''P=0.37KW'') = ascii ''0.37'' \<and>
   detailPowerValue (ascii ''P=0.37KW'') = Fin (37 / 100)"
  by code_simp

text \<open>
  Claim C4 says that sorting compares strings by locale and the quantity and power
  texts numerically, in the given direction. \<open>sortDevices\<close> hands the field name to
  \<open>orderBy\<close>, which compares the property values with \<open><\<close>: the device code "B"
  comes before "a" (code unit 66 before 97), where a locale-aware comparison puts "a"
  first; and a device has no power property, so sorting by power leaves the list as it
  is in both directions, although the powers of the two devices differ.
\<close>

theorem sortDevices_code_units:
  "sortDevices [deviceLowerA, deviceUpperB] \<lparr>so_field = F_deviceCode, so_direction = Asc\<rparr> =
     [deviceUpperB, deviceLowerA] \<and>
   sortDevices [deviceLowerA, deviceUpperB] \<lparr>so_field = F_power, so_direction = Asc\<rparr> =
     [deviceLowerA, deviceUpperB] \<and>
   sortDevices [deviceLowerA, deviceUpperB] \<lparr>so_field = F_power, so_direction = Desc\<rparr> =
     [deviceLowerA, deviceUpperB]"
  by code_simp

text \<open>
  Claim C10 says that the device total is the sum of the counts of the work-location
  table and the component total the sum of the counts of the component-name table.
  A label that names a property of \<open>Object.prototype\<close> breaks this: for the work
  location "__proto__" the table stays empty, and for "constructor" (or the component
  name "toString") the table holds a string instead of the count 1.
\<close>

theorem generateStatistics_inherited_key:
  "deviceTotal (generateStatistics [mkDevice ''device-1'' ''HC-001'' ''__proto__'' []]) = 1 \<and>
   deviceCategories (generateStatistics [mkDevice ''device-1'' ''HC-001'' ''__proto__'' []]) = [] \<and>
   sumCounts (deviceCategories (generateStatistics [mkDevice ''device-1'' ''HC-001'' ''__proto__'' []])) = 0 \<and>
   deviceTotal (generateStatistics [mkDevice ''device-1'' ''HC-001'' ''constructor'' []]) = 1 \<and>
   deviceCategories (generateStatistics [mkDevice ''device-1'' ''HC-001'' ''constructor'' []]) =
     [(ascii ''constructor'', Garbled)] \<and>
   componentTotal (generateStatistics [mkDevice ''device-1'' ''HC-001'' ''Loc''
       [mkComponent ''component-1'' ''toString'' [] [] [] []]]) = 1 \<and>
   componentCategories (generateStatistics [mkDevice ''device-1'' ''HC-001'' ''Loc''
       [mkComponent ''component-1'' ''toString'' [] [] [] []]]) = [(ascii ''toString'', Garbled)]"
  by code_simp

section \<open>Where the departures do not show\<close>

text \<open>
  \<open>extractPowerValue\<close> never returns NaN and returns 0 for blank and for unparsable
  text. On a text of digits, points and the removed unit characters alone it agrees with
  the rule that removes everything but digits and points.
\<close>

lemma extractPowerValue_not_NaN: "extractPowerValue s \<noteq> NaN"
  by (simp add: extractPowerValue_def Let_def)

lemma extractPowerValue_blank: "s = [] \<or> trim s = [] \<Longrightarrow> extractPowerValue s = Fin 0"
  by (auto simp add: extractPowerValue_def)

lemma extractPowerValue_unparsable:
  "parseFloat (trim (removeUnits s)) = NaN \<Longrightarrow> extractPowerValue s = Fin 0"
  by (simp add: extractPowerValue_def Let_def)

lemma numericOrUnit_not_space: "numericOrUnit c \<Longrightarrow> \<not> isWhiteSpace c"
  by (auto simp add: numericOrUnit_def isDigit_def isWhiteSpace_def whiteSpaceUnits_def
      powerUnitChars_def)

lemma numericOrUnit_unit:
  "numericOrUnit c \<Longrightarrow> (c \<notin> set powerUnitChars) = (isDigit c \<or> c = 0x2E)"
  by (auto simp add: numericOrUnit_def isDigit_def powerUnitChars_def)

lemma trim_no_space: "list_all (\<lambda>c. \<not> isWhiteSpace c) s \<Longrightarrow> trim s = s"
proof (cases s)
  case Nil
  then show ?thesis by (simp add: trim_def trimStart_def trimEnd_def)
next
  case (Cons c cs)
  assume a: "list_all (\<lambda>c. \<not> isWhiteSpace c) s"
  have ne: "s \<noteq> []" using Cons by simp
  have h: "\<not> isWhiteSpace (hd s)" using a Cons by simp
  have "last s \<in> set s" using ne by simp
  with a have l: "\<not> isWhiteSpace (last s)" by (simp add: list_all_iff)
  from trimmed_ends [OF ne h l] show ?thesis by (simp add: trimmed_def)
qed

lemma extractPowerValue_agrees:
  assumes "list_all numericOrUnit s"
  shows "extractPowerValue s = detailPowerValue s"
proof -
  have ns: "list_all (\<lambda>c. \<not> isWhiteSpace c) s"
    using assms by (simp add: list_all_iff numericOrUnit_not_space)
  have r: "removeUnits s = keepNumeric s"
    unfolding removeUnits_def keepNumeric_def
    using assms by (intro filter_cong refl) (simp add: list_all_iff numericOrUnit_unit)
  have "list_all (\<lambda>c. \<not> isWhiteSpace c) (keepNumeric s)"
    using ns by (simp add: keepNumeric_def list_all_iff)
  then have t: "trim (keepNumeric s) = keepNumeric s" by (rule trim_no_space)
  have e: "parseFloat [] = NaN" by (simp add: parseFloat_def trimStart_def)
  show ?thesis
  proof (cases "s = []")
    case True
    then show ?thesis
      by (simp add: extractPowerValue_def detailPowerValue_def keepNumeric_def e)
  next
    case False
    then show ?thesis
      by (simp add: extractPowerValue_def detailPowerValue_def Let_def r t trim_no_space [OF ns])
  qed
qed

text \<open>
  Sorting by a field that only components have returns the device list as it is,
  whatever the direction.
\<close>

lemma getField_componentOnly: "componentOnly f \<Longrightarrow> getField d f = Undefined"
  by (auto simp add: componentOnly_def getField_def)

lemma sortWith_undefined:
  "sortWith (comparer orders) (map (\<lambda>p. ([Undefined], fst p, snd p)) (enumerate n ds)) =
     map (\<lambda>p. ([Undefined], fst p, snd p)) (enumerate n ds)"
proof (induction ds arbitrary: n)
  case Nil
  show ?case by (simp add: sortWith_def)
next
  case (Cons d ds)
  have "sortWith (comparer orders) (map (\<lambda>p. ([Undefined], fst p, snd p)) (enumerate n (d # ds))) =
        insertSorted (comparer orders) ([Undefined], n, d)
          (sortWith (comparer orders) (map (\<lambda>p. ([Undefined], fst p, snd p)) (enumerate (Suc n) ds)))"
    by (simp add: sortWith_def)
  also have "\<dots> = insertSorted (comparer orders) ([Undefined], n, d)
          (map (\<lambda>p. ([Undefined], fst p, snd p)) (enumerate (Suc n) ds))"
    by (simp only: Cons.IH)
  also have "\<dots> = ([Undefined], n, d) # map (\<lambda>p. ([Undefined], fst p, snd p)) (enumerate (Suc n) ds)"
    by (cases ds) (simp_all add: comparer_def compareAscending_def)
  finally show ?case by simp
qed

lemma sortDevices_componentOnly:
  "componentOnly (so_field sortOptions) \<Longrightarrow> sortDevices ds sortOptions = ds"
proof -
  assume c: "componentOnly (so_field sortOptions)"
  have k: "map (\<lambda>p. (map (getField (snd p)) [so_field sortOptions], fst p, snd p)) (enumerate 0 ds) =
           map (\<lambda>p. ([Undefined], fst p, snd p)) (enumerate 0 ds)"
    by (simp add: getField_componentOnly [OF c])
  have "map (\<lambda>k. snd (snd k)) (map (\<lambda>p. ([Undefined], fst p, snd p)) (enumerate 0 ds)) = ds"
    by (simp add: comp_def map_snd_enumerate)
  then show ?thesis
    unfolding sortDevices_def orderBy_def k sortWith_undefined by simp
qed

text \<open>
  When no counted label is the name of a property of \<open>Object.prototype\<close>, both
  tables hold counts only, and the counts add up to the totals.
\<close>

lemma proto_not_own: "ownLabel k \<Longrightarrow> k \<noteq> ascii ''__proto__''"
  by (auto simp add: ownLabel_def objectPrototypeKeys_def)

lemma sumCounts_append: "sumCounts (t @ [(k, v)]) = sumCounts t + tallyCount v"
  by (simp add: sumCounts_def)

lemma map_of_None_fst: "map_of t k = None \<Longrightarrow> k \<notin> fst ` set t"
  by (simp add: map_of_eq_None_iff)

lemma update_keys:
  "map fst (map (\<lambda>(k', v'). if k' = k then (k', v) else (k', v')) t) = map fst t"
  by (induction t) auto

lemma update_sum:
  "distinct (map fst t) \<Longrightarrow> map_of t k = Some (Count n) \<Longrightarrow>
   sumCounts (map (\<lambda>(k', v'). if k' = k then (k', Count (Suc n)) else (k', v')) t) = Suc (sumCounts t)"
proof (induction t)
  case Nil
  then show ?case by simp
next
  case (Cons p t)
  obtain k' v' where p: "p = (k', v')" by (cases p)
  show ?case
  proof (cases "k' = k")
    case True
    with Cons.prems p have v: "v' = Count n" by simp
    from Cons.prems p True have "k \<notin> fst ` set t" by auto
    then have "map (\<lambda>(k', v'). if k' = k then (k', Count (Suc n)) else (k', v')) t = t"
      by (induction t) auto
    then show ?thesis using p True v by (simp add: sumCounts_def tallyCount_def)
  next
    case False
    with Cons.prems p have "map_of t k = Some (Count n)" and "distinct (map fst t)" by simp_all
    from Cons.IH [OF this(2) this(1)] show ?thesis using p False by (simp add: sumCounts_def)
  qed
qed

lemma update_all_count:
  "list_all (\<lambda>p. isCount (snd p)) t \<Longrightarrow>
   list_all (\<lambda>p. isCount (snd p)) (map (\<lambda>(k', v'). if k' = k then (k', Count m) else (k', v')) t)"
  by (induction t) (auto simp add: isCount_def)

lemma map_of_all_count:
  "list_all (\<lambda>p. isCount (snd p)) t \<Longrightarrow> map_of t k = Some v \<Longrightarrow> \<exists>n. v = Count n"
  by (induction t) (auto simp add: isCount_def split: if_splits tally.splits)

lemma increment_ok:
  assumes "tableOk t" and "ownLabel k"
  shows "tableOk (increment t k) \<and> sumCounts (increment t k) = Suc (sumCounts t)"
proof (cases "map_of t k")
  case None
  then have "k \<notin> fst ` set t" by (rule map_of_None_fst)
  then show ?thesis
    using assms None proto_not_own [OF assms(2)]
    by (simp add: increment_def nextTally_def setProp_def ownLabel_def tableOk_def
        sumCounts_append tallyCount_def isCount_def)
next
  case (Some v)
  from assms(1) have d: "distinct (map fst t)" and a: "list_all (\<lambda>p. isCount (snd p)) t"
    by (simp_all add: tableOk_def)
  from map_of_all_count [OF a Some] obtain n where v: "v = Count n" by blast
  have i: "increment t k = map (\<lambda>(k', v'). if k' = k then (k', Count (Suc n)) else (k', v')) t"
    using Some v proto_not_own [OF assms(2)]
    by (simp add: increment_def nextTally_def setProp_def)
  have dk: "distinct (map fst (increment t k))" unfolding i using d by (simp only: update_keys)
  have ak: "list_all (\<lambda>p. isCount (snd p)) (increment t k)"
    unfolding i by (rule update_all_count [OF a])
  have sk: "sumCounts (increment t k) = Suc (sumCounts t)"
    unfolding i using Some v by (intro update_sum [OF d]) simp
  from dk ak sk show ?thesis by (simp only: tableOk_def simp_thms)
qed

lemma foldl_increment_ok:
  "tableOk t \<Longrightarrow> list_all ownLabel ks \<Longrightarrow>
   tableOk (foldl increment t ks) \<and> sumCounts (foldl increment t ks) = sumCounts t + length ks"
proof (induction ks arbitrary: t)
  case Nil
  then show ?case by simp
next
  case (Cons k ks)
  from Cons.prems have o: "ownLabel k" and r: "list_all ownLabel ks" by simp_all
  from increment_ok [OF Cons.prems(1) o]
  have t': "tableOk (increment t k)" and s: "sumCounts (increment t k) = Suc (sumCounts t)" by simp_all
  from Cons.IH [OF t' r] s show ?case by simp
qed

lemma foldl_nested:
  "foldl (\<lambda>t d. foldl f t (g d)) t ds = foldl f t (concat (map g ds))"
  by (induction ds arbitrary: t) simp_all

lemma foldl_length:
  "foldl (\<lambda>total d. total + length (g d)) n ds = n + length (concat (map g ds))"
  by (induction ds arbitrary: n) simp_all

lemma generateStatistics_consistent:
  assumes "list_all ownLabel (deviceLabels ds)" and "list_all ownLabel (componentLabels ds)"
  shows "sumCounts (deviceCategories (generateStatistics ds)) = deviceTotal (generateStatistics ds) \<and>
         sumCounts (componentCategories (generateStatistics ds)) = componentTotal (generateStatistics ds)"
proof -
  have e: "tableOk []" by (simp add: tableOk_def)
  have d: "deviceCategories (generateStatistics ds) = foldl increment [] (deviceLabels ds)"
    by (simp add: generateStatistics_def deviceLabels_def foldl_map)
  have c: "componentCategories (generateStatistics ds) = foldl increment [] (componentLabels ds)"
    by (simp add: generateStatistics_def componentLabels_def foldl_map foldl_nested)
  have n: "componentTotal (generateStatistics ds) = length (componentLabels ds)"
    by (simp add: generateStatistics_def componentLabels_def foldl_length)
  have m: "deviceTotal (generateStatistics ds) = length (deviceLabels ds)"
    by (simp add: generateStatistics_def deviceLabels_def)
  have z: "sumCounts [] = 0" by (simp add: sumCounts_def)
  from foldl_increment_ok [OF e assms(1)] z
  have 1: "sumCounts (foldl increment [] (deviceLabels ds)) = length (deviceLabels ds)" by simp
  from foldl_increment_ok [OF e assms(2)] z
  have 2: "sumCounts (foldl increment [] (componentLabels ds)) = length (componentLabels ds)" by simp
  show ?thesis unfolding d c n m using 1 2 by (rule conjI)
qed

end
